theory Spec2Isabelle
  imports Main "HOL-Library.Char_ord" "HOL-Library.List_Lexorder"
    "HOL-Library.Product_Lexorder" "HOL-Library.Multiset"
begin

section \<open>ZET.py: calendar resolution, departures at a stop, realtime correlation\<close>

text \<open>
  A shallow embedding of the computing parts of \<^verbatim>\<open>src/ZET.py\<close>: \<^verbatim>\<open>active_services\<close>,
  \<^verbatim>\<open>get_static_trips_for_route\<close>, \<^verbatim>\<open>correlate\<close>, \<^verbatim>\<open>time_str_to_seconds\<close> and the
  computation of \<^verbatim>\<open>upcoming\<close> in \<^verbatim>\<open>search_by_stop_id\<close>. Printing, prompting and the
  loading of files and of the feed are left out.

  The tables are pandas data frames read with \<^verbatim>\<open>dtype=str\<close>: a cell is a string or NaN.
  A table is a list of rows, a row a record of cells with the columns the code reads;
  the code's tests for the presence of a column are taken as passed. A table that could
  not be loaded is \<open>None\<close>.
\<close>

subsection \<open>Dates\<close>

text \<open>
  Python's \<^verbatim>\<open>datetime.date\<close>: compared as the triple (year, month, day);
  \<^verbatim>\<open>weekday()\<close> is \<^verbatim>\<open>(toordinal() + 6) % 7\<close>, Monday being 0. The constructor of
  Python accepts valid calendar dates only; the model's dates are any triple, and
  nothing below depends on validity. The table of the days before a month is read
  for the months 1 to 12.
\<close>

datatype date = Date (year: int) (month: int) (day: int)

definition date_le :: "date \<Rightarrow> date \<Rightarrow> bool" where
  "date_le a b =
     (year a < year b \<or> (year a = year b \<and>
       (month a < month b \<or> (month a = month b \<and> day a \<le> day b))))"

definition is_leap :: "int \<Rightarrow> bool" where
  "is_leap y = (y mod 4 = 0 \<and> (y mod 100 \<noteq> 0 \<or> y mod 400 = 0))"

definition days_before_year :: "int \<Rightarrow> int" where
  "days_before_year y = (let z = y - 1 in z * 365 + z div 4 - z div 100 + z div 400)"

definition days_before_month :: "int \<Rightarrow> int \<Rightarrow> int" where
  "days_before_month y m =
     (if 1 \<le> m \<and> m \<le> 12
      then [0, 31, 59, 90, 120, 151, 181, 212, 243, 273, 304, 334] ! nat (m - 1)
      else 0)
     + (if 2 < m \<and> is_leap y then 1 else 0)"

definition toordinal :: "date \<Rightarrow> int" where
  "toordinal d = days_before_year (year d) + days_before_month (year d) (month d) + day d"

definition weekday :: "date \<Rightarrow> int" where
  "weekday d = (toordinal d + 6) mod 7"

record datetime =
  dt_date :: date
  dt_hour :: int
  dt_minute :: int
  dt_second :: int

subsection \<open>The static tables\<close>

type_synonym cell = "string option"

record calendar_row =
  cal_service_id :: cell
  cal_monday :: cell
  cal_tuesday :: cell
  cal_wednesday :: cell
  cal_thursday :: cell
  cal_friday :: cell
  cal_saturday :: cell
  cal_sunday :: cell
  cal_start_date :: cell
  cal_end_date :: cell

record calendar_date_row =
  cd_service_id :: cell
  cd_date :: cell
  cd_exception_type :: cell

record trip_row =
  t_trip_id :: cell
  t_route_id :: cell
  t_service_id :: cell
  t_trip_headsign :: cell

record stop_time_row =
  st_trip_id :: cell
  st_stop_id :: cell
  st_arrival_time :: cell
  st_departure_time :: cell
  st_stop_sequence :: cell

record stop_row =
  s_stop_id :: cell
  s_stop_name :: cell

subsection \<open>Pandas operations on columns\<close>

text \<open>
  \<^verbatim>\<open>pd.to_datetime(col, format="%Y%m%d", errors='coerce').dt.date\<close> turns each cell
  into a date, or into NaT where the cell is NaN or does not parse. The parser of one
  string is the library's, and the model takes it as the parameter \<open>parse\<close>.
\<close>

definition to_datetime :: "(string \<Rightarrow> date option) \<Rightarrow> cell \<Rightarrow> date option" where
  "to_datetime parse c = (case c of None \<Rightarrow> None | Some s \<Rightarrow> parse s)"

definition fillna :: "'a option \<Rightarrow> 'a \<Rightarrow> 'a" where
  "fillna c v = (case c of None \<Rightarrow> v | Some x \<Rightarrow> x)"

text \<open>\<^verbatim>\<open>col.dropna().astype(str).tolist()\<close>\<close>

definition dropna_tolist :: "cell list \<Rightarrow> string list" where
  "dropna_tolist cs = concat (map (\<lambda>c. case c of None \<Rightarrow> [] | Some s \<Rightarrow> [s]) cs)"

text \<open>\<^verbatim>\<open>col.isin(active)\<close> on one cell: NaN is in no set of strings.\<close>

definition isin :: "cell \<Rightarrow> string set \<Rightarrow> bool" where
  "isin c A = (case c of None \<Rightarrow> False | Some s \<Rightarrow> s \<in> A)"

subsection \<open>\<^verbatim>\<open>active_services\<close>\<close>

definition weekdays :: "(calendar_row \<Rightarrow> cell) list" where
  "weekdays = [cal_monday, cal_tuesday, cal_wednesday, cal_thursday, cal_friday,
               cal_saturday, cal_sunday]"

definition valid_date :: "(string \<Rightarrow> date option) \<Rightarrow> calendar_row \<Rightarrow> date \<Rightarrow> bool" where
  "valid_date parse r target_date =
     (date_le (fillna (to_datetime parse (cal_start_date r)) (Date 1900 1 1)) target_date \<and>
      date_le target_date (fillna (to_datetime parse (cal_end_date r)) (Date 2900 1 1)))"

definition valid_weekday :: "calendar_row \<Rightarrow> date \<Rightarrow> bool" where
  "valid_weekday r target_date = ((weekdays ! nat (weekday target_date)) r = Some ''1'')"

definition active_services ::
  "(string \<Rightarrow> date option) \<Rightarrow> calendar_row list option \<Rightarrow> calendar_date_row list option
     \<Rightarrow> date \<Rightarrow> string set" where
  "active_services parse calendar calendar_dates target_date =
     (let active0 = {};
          active1 =
            (case calendar of
               None \<Rightarrow> active0
             | Some cal \<Rightarrow>
                 active0 \<union> set (dropna_tolist (map cal_service_id
                   (filter (\<lambda>r. valid_date parse r target_date \<and> valid_weekday r target_date)
                      cal))))
      in case calendar_dates of
           None \<Rightarrow> active1
         | Some cds \<Rightarrow>
             (let exceptions =
                    filter (\<lambda>r. to_datetime parse (cd_date r) = Some target_date) cds
              in (active1 \<union> set (dropna_tolist (map cd_service_id
                    (filter (\<lambda>r. cd_exception_type r = Some ''1'') exceptions))))
                 - set (dropna_tolist (map cd_service_id
                    (filter (\<lambda>r. cd_exception_type r = Some ''2'') exceptions)))))"

subsection \<open>\<^verbatim>\<open>time_str_to_seconds\<close>\<close>

text \<open>
  \<^verbatim>\<open>str.split(":")\<close>, and Python's \<^verbatim>\<open>int\<close> on a string, for ASCII text: blanks
  around the number are dropped, one sign may come first, and the digits may be grouped
  by single underscores. Digits and blanks beyond ASCII, which Python also accepts, and
  the interpreter's limit on the number of digits are outside the model. A
  \<^verbatim>\<open>ValueError\<close> is \<open>None\<close>.
\<close>

fun split_on :: "char \<Rightarrow> string \<Rightarrow> string list" where
  "split_on sep [] = [[]]"
| "split_on sep (c # cs) =
     (if c = sep then [] # split_on sep cs
      else (case split_on sep cs of [] \<Rightarrow> [[c]] | p # ps \<Rightarrow> (c # p) # ps))"

definition is_space :: "char \<Rightarrow> bool" where
  "is_space c = (c \<in> set [CHR 0x20, CHR 0x09, CHR 0x0A, CHR 0x0B, CHR 0x0C, CHR 0x0D])"

definition is_digit :: "char \<Rightarrow> bool" where
  "is_digit c = (CHR ''0'' \<le> c \<and> c \<le> CHR ''9'')"

definition digit_value :: "char \<Rightarrow> int" where
  "digit_value c = int (of_char c) - 48"

definition strip :: "string \<Rightarrow> string" where
  "strip s = rev (dropWhile is_space (rev (dropWhile is_space s)))"

fun int_digits :: "int \<Rightarrow> string \<Rightarrow> int option" where
  "int_digits acc [] = Some acc"
| "int_digits acc (c # cs) =
     (if is_digit c then int_digits (acc * 10 + digit_value c) cs
      else if c = CHR ''_'' then
        (case cs of
           [] \<Rightarrow> None
         | d # ds \<Rightarrow> if is_digit d then int_digits (acc * 10 + digit_value d) ds else None)
      else None)"

definition py_int :: "string \<Rightarrow> int option" where
  "py_int s =
     (let t = strip s;
          (sign, u) = (case t of
                         [] \<Rightarrow> (1, [])
                       | c # cs \<Rightarrow> if c = CHR ''+'' then (1, cs)
                                  else if c = CHR ''-'' then (- 1, cs) else (1, t))
      in case u of
           [] \<Rightarrow> None
         | c # cs \<Rightarrow>
             if is_digit c then map_option (\<lambda>n. sign * n) (int_digits (digit_value c) cs)
             else None)"

definition time_str_to_seconds :: "string \<Rightarrow> int option" where
  "time_str_to_seconds t =
     (case split_on CHR '':'' t of
        [a, b, c] \<Rightarrow>
          (case py_int a of None \<Rightarrow> None | Some h \<Rightarrow>
          (case py_int b of None \<Rightarrow> None | Some m \<Rightarrow>
          (case py_int c of None \<Rightarrow> None | Some s \<Rightarrow> Some (h * 3600 + m * 60 + s))))
      | [a, b] \<Rightarrow>
          (case py_int a of None \<Rightarrow> None | Some h \<Rightarrow>
          (case py_int b of None \<Rightarrow> None | Some m \<Rightarrow> Some (h * 3600 + m * 60 + 0)))
      | _ \<Rightarrow> None)"

subsection \<open>Departures at a stop: \<^verbatim>\<open>upcoming\<close> in \<^verbatim>\<open>search_by_stop_id\<close>\<close>

text \<open>
  A value of the columns \<^verbatim>\<open>dep_sec\<close> and \<^verbatim>\<open>delta\<close>: Python's \<^verbatim>\<open>None\<close>, a number, or
  NaN. \<^verbatim>\<open>Series.apply\<close> infers the type of the column it builds: when the function gave
  a number for some row and \<^verbatim>\<open>None\<close> for another, the column is numeric and every
  \<^verbatim>\<open>None\<close> becomes NaN; when it gave \<^verbatim>\<open>None\<close> for every row, the column keeps the
  \<^verbatim>\<open>None\<close>s. Numbers are kept as integers: the floats of a numeric column with NaN
  hold the seconds of a timetable exactly.
\<close>

datatype pyval = PyNone | NaN | Num int

definition series_apply :: "('a \<Rightarrow> int option) \<Rightarrow> 'a list \<Rightarrow> pyval list" where
  "series_apply f col =
     (let res = map f col
      in if list_ex (\<lambda>x. x \<noteq> None) res
         then map (\<lambda>x. case x of None \<Rightarrow> NaN | Some n \<Rightarrow> Num n) res
         else map (\<lambda>x. PyNone) res)"

record merged_row =
  mr_stop_time :: stop_time_row
  mr_dep_sec :: pyval
  mr_route_id :: cell
  mr_service_id :: cell

datatype outcome =
    Missing_static
  | Stop_not_found
  | Upcoming "(merged_row \<times> pyval) list"

text \<open>\<^verbatim>\<open>lambda t: time_str_to_seconds(t) if isinstance(t, str) else None\<close>\<close>

definition dep_sec_of :: "cell \<Rightarrow> int option" where
  "dep_sec_of t = (case t of None \<Rightarrow> None | Some s \<Rightarrow> time_str_to_seconds s)"

text \<open>The rows of the stop, with their \<^verbatim>\<open>dep_sec\<close>.\<close>

definition stop_rows :: "string \<Rightarrow> stop_time_row list \<Rightarrow> (stop_time_row \<times> pyval) list" where
  "stop_rows sid stop_times =
     (let sts = filter (\<lambda>r. st_stop_id r = Some sid) stop_times
      in zip sts (series_apply dep_sec_of (map st_departure_time sts)))"

text \<open>
  \<^verbatim>\<open>sts.merge(trips[["trip_id","route_id","service_id"]], on="trip_id", how="left")\<close>:
  every row of the left table, once for each trip with the same key, in the order
  of the left table; once with NaN when no trip has its key. NaN keys match each other.
\<close>

definition merge_left :: "(stop_time_row \<times> pyval) list \<Rightarrow> trip_row list \<Rightarrow> merged_row list" where
  "merge_left sts trips =
     concat (map (\<lambda>(s, v).
       (case filter (\<lambda>t. t_trip_id t = st_trip_id s) trips of
          [] \<Rightarrow> [\<lparr>mr_stop_time = s, mr_dep_sec = v, mr_route_id = None, mr_service_id = None\<rparr>]
        | t # ts \<Rightarrow>
            map (\<lambda>t. \<lparr>mr_stop_time = s, mr_dep_sec = v, mr_route_id = t_route_id t,
                      mr_service_id = t_service_id t\<rparr>) (t # ts))) sts)"

definition service_filter :: "string set \<Rightarrow> merged_row list \<Rightarrow> merged_row list" where
  "service_filter active merged =
     (if active \<noteq> {} then filter (\<lambda>m. isin (mr_service_id m) active) merged else merged)"

text \<open>\<^verbatim>\<open>lambda x: x - sec if x is not None else 999999\<close>: NaN is not \<^verbatim>\<open>None\<close>.\<close>

definition delta_of :: "int \<Rightarrow> pyval \<Rightarrow> pyval" where
  "delta_of sec x = (case x of PyNone \<Rightarrow> Num 999999 | NaN \<Rightarrow> NaN | Num d \<Rightarrow> Num (d - sec))"

definition with_delta :: "int \<Rightarrow> merged_row list \<Rightarrow> (merged_row \<times> pyval) list" where
  "with_delta sec merged = map (\<lambda>m. (m, delta_of sec (mr_dep_sec m))) merged"

text \<open>\<^verbatim>\<open>delta >= bound\<close>: false on NaN.\<close>

definition delta_ge :: "pyval \<Rightarrow> int \<Rightarrow> bool" where
  "delta_ge v bound = (case v of Num x \<Rightarrow> bound \<le> x | _ \<Rightarrow> False)"

definition kept_rows :: "int \<Rightarrow> merged_row list \<Rightarrow> (merged_row \<times> pyval) list" where
  "kept_rows sec merged = filter (\<lambda>r. delta_ge (snd r) (- 300)) (with_delta sec merged)"

text \<open>
  \<^verbatim>\<open>sort_values("delta")\<close>: ascending, NaN last. Pandas leaves the order of rows with
  equal keys open; the model keeps their order.
\<close>

definition delta_key :: "pyval \<Rightarrow> nat \<times> int" where
  "delta_key v = (case v of Num x \<Rightarrow> (0, x) | _ \<Rightarrow> (1, 0))"

definition sort_values_delta :: "(merged_row \<times> pyval) list \<Rightarrow> (merged_row \<times> pyval) list" where
  "sort_values_delta rows = sort_key (\<lambda>r. delta_key (snd r)) rows"

definition upcoming_rows :: "int \<Rightarrow> merged_row list \<Rightarrow> (merged_row \<times> pyval) list" where
  "upcoming_rows sec merged = take 50 (sort_values_delta (kept_rows sec merged))"

definition query_seconds :: "datetime \<Rightarrow> int" where
  "query_seconds user_dt = dt_hour user_dt * 3600 + dt_minute user_dt * 60 + dt_second user_dt"

definition merged_rows ::
  "(string \<Rightarrow> date option) \<Rightarrow> trip_row list \<Rightarrow> stop_time_row list \<Rightarrow> calendar_row list option
     \<Rightarrow> calendar_date_row list option \<Rightarrow> string \<Rightarrow> datetime \<Rightarrow> merged_row list" where
  "merged_rows parse trips stop_times calendar calendar_dates sid user_dt =
     (let merged = merge_left (stop_rows sid stop_times) trips;
          active = active_services parse calendar calendar_dates (dt_date user_dt)
      in service_filter active merged)"

definition search_by_stop_id_upcoming ::
  "(string \<Rightarrow> date option) \<Rightarrow> trip_row list option \<Rightarrow> stop_time_row list option
     \<Rightarrow> calendar_row list option \<Rightarrow> calendar_date_row list option \<Rightarrow> string
     \<Rightarrow> datetime option \<Rightarrow> outcome" where
  "search_by_stop_id_upcoming parse trips stop_times calendar calendar_dates sid user_dt =
     (case (stop_times, trips, user_dt) of
        (Some sts, Some trs, Some dt) \<Rightarrow>
          (case stop_rows sid sts of
             [] \<Rightarrow> Stop_not_found
           | _ # _ \<Rightarrow>
               Upcoming (upcoming_rows (query_seconds dt)
                           (merged_rows parse trs sts calendar calendar_dates sid dt)))
      | _ \<Rightarrow> Missing_static)"

subsection \<open>\<^verbatim>\<open>get_static_trips_for_route\<close>\<close>

record stop_entry =
  se_stop_id :: cell
  se_stop_name :: cell
  se_arrival :: cell
  se_departure :: cell
  se_seq :: cell

record trip_schedule =
  ts_trip_id :: cell
  ts_headsign :: cell
  ts_stops :: "stop_entry list"

text \<open>
  \<^verbatim>\<open>table.set_index(k)[v].to_dict()\<close>: of two rows with one key, the later is kept.
\<close>

definition to_dict :: "('k \<times> 'v) list \<Rightarrow> ('k \<rightharpoonup> 'v)" where
  "to_dict kvs = map_of (rev kvs)"

text \<open>
  The trips of the route, restricted to the active services when that set is not empty
  (\<^verbatim>\<open>cand\<close>, lines 100 to 102).
\<close>

definition cand_trips :: "trip_row list \<Rightarrow> string \<Rightarrow> string set \<Rightarrow> trip_row list" where
  "cand_trips trips route_id active =
     (let cand = filter (\<lambda>t. t_route_id t = Some route_id) trips
      in if active \<noteq> {} then filter (\<lambda>t. isin (t_service_id t) active) cand else cand)"

text \<open>
  \<^verbatim>\<open>sort_values("stop_sequence")\<close>: the column holds strings, so the order is that of
  strings, NaN last.
\<close>

definition seq_key :: "cell \<Rightarrow> nat \<times> string" where
  "seq_key c = (case c of None \<Rightarrow> (1, []) | Some q \<Rightarrow> (0, q))"

definition trip_stop_times :: "stop_time_row list \<Rightarrow> cell \<Rightarrow> stop_time_row list" where
  "trip_stop_times stop_times trip_id =
     sort_key (\<lambda>s. seq_key (st_stop_sequence s))
       (filter (\<lambda>s. trip_id \<noteq> None \<and> st_trip_id s = trip_id) stop_times)"

definition get_static_trips_for_route ::
  "trip_row list option \<Rightarrow> stop_time_row list option \<Rightarrow> stop_row list option \<Rightarrow> string
     \<Rightarrow> string set \<Rightarrow> trip_schedule list" where
  "get_static_trips_for_route trips stop_times stops route_id active =
     (case (trips, stop_times) of
        (Some trs, Some sts) \<Rightarrow>
          (let cand = cand_trips trs route_id active;
               stop_names =
                 (case stops of
                    None \<Rightarrow> Map.empty
                  | Some ss \<Rightarrow> to_dict (map (\<lambda>s. (s_stop_id s, s_stop_name s)) ss))
           in map (\<lambda>t.
                \<lparr>ts_trip_id = t_trip_id t,
                 ts_headsign = t_trip_headsign t,
                 ts_stops =
                   map (\<lambda>s.
                     \<lparr>se_stop_id = st_stop_id s,
                      se_stop_name =
                        (case stop_names (st_stop_id s) of
                           None \<Rightarrow> st_stop_id s
                         | Some name \<Rightarrow> name),
                      se_arrival = st_arrival_time s,
                      se_departure = st_departure_time s,
                      se_seq = st_stop_sequence s\<rparr>)
                     (trip_stop_times sts (t_trip_id t))\<rparr>) cand)
      | _ \<Rightarrow> [])"

subsection \<open>\<^verbatim>\<open>correlate\<close>\<close>

text \<open>
  The messages of the realtime feed. A sub-message that may be absent
  (\<^verbatim>\<open>HasField\<close>) is an option; a string field that is not set reads as the empty
  string. Only the fields \<^verbatim>\<open>correlate\<close> reads are kept.
\<close>

record trip_descriptor =
  td_trip_id :: string
  td_route_id :: string

record stop_time_update =
  stu_stop_id :: string
  stu_stop_sequence :: int

record trip_update =
  tu_trip :: "trip_descriptor option"
  tu_stop_time_update :: "stop_time_update list"

record vehicle_descriptor =
  vd_id :: string
  vd_label :: string

record vehicle_position =
  vp_trip :: "trip_descriptor option"
  vp_vehicle :: "vehicle_descriptor option"

record feed_entity =
  fe_id :: string
  fe_trip_update :: "trip_update option"
  fe_vehicle :: "vehicle_position option"

record match =
  match_entity_id :: string
  match_trip_id :: "string option"
  match_trip_update :: "trip_update option"
  match_vehicle :: "vehicle_position option"

text \<open>The truth value Python gives an optional string: false on \<^verbatim>\<open>None\<close> and on \<^verbatim>\<open>""\<close>.\<close>

definition truthy :: "string option \<Rightarrow> bool" where
  "truthy x = (case x of None \<Rightarrow> False | Some s \<Rightarrow> s \<noteq> [])"

text \<open>
  \<^verbatim>\<open>str.lower\<close> on ASCII text. Letters beyond ASCII, which Python lowers too, are
  left as they are.
\<close>

definition lower_char :: "char \<Rightarrow> char" where
  "lower_char c = (if CHR ''A'' \<le> c \<and> c \<le> CHR ''Z'' then char_of (of_char c + (32::nat)) else c)"

definition lower :: "string \<Rightarrow> string" where
  "lower s = map lower_char s"

definition trip_to_route :: "trip_row list option \<Rightarrow> (cell \<rightharpoonup> cell)" where
  "trip_to_route trips =
     (case trips of
        None \<Rightarrow> Map.empty
      | Some trs \<Rightarrow> to_dict (map (\<lambda>t. (t_trip_id t, t_route_id t)) trs))"

text \<open>The variable \<^verbatim>\<open>trip\<close> of the loop body.\<close>

definition entity_trip :: "feed_entity \<Rightarrow> trip_descriptor option" where
  "entity_trip entity =
     (let tu = fe_trip_update entity; veh = fe_vehicle entity
      in case (case tu of None \<Rightarrow> None | Some u \<Rightarrow> tu_trip u) of
           Some t \<Rightarrow> Some t
         | None \<Rightarrow> (case veh of None \<Rightarrow> None | Some v \<Rightarrow> vp_trip v))"

text \<open>\<^verbatim>\<open>getattr(getattr(veh, "vehicle", None), "id", None)\<close>\<close>

definition vehicle_id_of :: "vehicle_position \<Rightarrow> string" where
  "vehicle_id_of veh = (case vp_vehicle veh of None \<Rightarrow> [] | Some d \<Rightarrow> vd_id d)"

text \<open>The inner loop over \<^verbatim>\<open>tu.stop_time_update\<close>, left at the first match.\<close>

fun stop_matched :: "string option \<Rightarrow> stop_time_update list \<Rightarrow> bool" where
  "stop_matched stop_id [] = False"
| "stop_matched stop_id (stu # rest) =
     (if Some (stu_stop_id stu) = stop_id then True else stop_matched stop_id rest)"

text \<open>The flag \<^verbatim>\<open>matched\<close> at the end of the loop body.\<close>

definition entity_matched ::
  "(cell \<rightharpoonup> cell) \<Rightarrow> string option \<Rightarrow> string option \<Rightarrow> string option \<Rightarrow> feed_entity \<Rightarrow> bool" where
  "entity_matched ttr route_id vehicle_id stop_id entity =
     (let tu = fe_trip_update entity;
          veh = fe_vehicle entity;
          trip_id = map_option td_trip_id (entity_trip entity)
      in if truthy route_id then
           (case trip_id of
              None \<Rightarrow> False
            | Some tid \<Rightarrow> (case ttr (Some tid) of None \<Rightarrow> False | Some r \<Rightarrow> r = route_id))
         else if truthy vehicle_id \<and> veh \<noteq> None then
           (case veh of
              None \<Rightarrow> False
            | Some v \<Rightarrow>
                (let vid = vehicle_id_of v
                 in vid \<noteq> [] \<and> Some (lower vid) = map_option lower vehicle_id))
         else if truthy stop_id \<and> tu \<noteq> None then
           (case tu of None \<Rightarrow> False | Some u \<Rightarrow> stop_matched stop_id (tu_stop_time_update u))
         else False)"

definition match_of :: "feed_entity \<Rightarrow> match" where
  "match_of entity =
     \<lparr>match_entity_id = fe_id entity,
      match_trip_id = map_option td_trip_id (entity_trip entity),
      match_trip_update = fe_trip_update entity,
      match_vehicle = fe_vehicle entity\<rparr>"

fun correlate_loop ::
  "(cell \<rightharpoonup> cell) \<Rightarrow> string option \<Rightarrow> string option \<Rightarrow> string option \<Rightarrow> feed_entity list
     \<Rightarrow> match list \<Rightarrow> match list" where
  "correlate_loop ttr route_id vehicle_id stop_id [] matches = matches"
| "correlate_loop ttr route_id vehicle_id stop_id (entity # rest) matches =
     correlate_loop ttr route_id vehicle_id stop_id rest
       (if entity_matched ttr route_id vehicle_id stop_id entity
        then matches @ [match_of entity] else matches)"

definition correlate ::
  "feed_entity list \<Rightarrow> trip_row list option \<Rightarrow> string option \<Rightarrow> string option \<Rightarrow> string option
     \<Rightarrow> match list" where
  "correlate feed trips route_id vehicle_id stop_id =
     correlate_loop (trip_to_route trips) route_id vehicle_id stop_id feed []"

subsection \<open>The specification's reading of the resolver and of the trip descriptor\<close>

text \<open>
  The resolver as the specification words it: the set Base of the rules whose weekday
  bit is set and whose window, with a sentinel on a missing side, contains the date,
  and the sets Added and Removed of the exceptions of that date. The two sentinels are
  parameters.
\<close>

datatype exception_kind = Added | Removed

definition table_rows :: "'a list option \<Rightarrow> 'a list" where
  "table_rows t = (case t of None \<Rightarrow> [] | Some rows \<Rightarrow> rows)"

definition weekday_mask :: "calendar_row \<Rightarrow> bool list" where
  "weekday_mask r =
     map (\<lambda>c. c = Some ''1'')
       [cal_monday r, cal_tuesday r, cal_wednesday r, cal_thursday r, cal_friday r,
        cal_saturday r, cal_sunday r]"

definition kind_of :: "calendar_date_row \<Rightarrow> exception_kind option" where
  "kind_of r =
     (if cd_exception_type r = Some ''1'' then Some Added
      else if cd_exception_type r = Some ''2'' then Some Removed
      else None)"

definition spec_base ::
  "(string \<Rightarrow> date option) \<Rightarrow> date \<Rightarrow> date \<Rightarrow> calendar_row list option \<Rightarrow> date \<Rightarrow> string set" where
  "spec_base parse earliest latest calendar d =
     {s. \<exists>r \<in> set (table_rows calendar).
           cal_service_id r = Some s \<and>
           weekday_mask r ! nat (weekday d) \<and>
           date_le (case to_datetime parse (cal_start_date r) of None \<Rightarrow> earliest | Some a \<Rightarrow> a) d \<and>
           date_le d (case to_datetime parse (cal_end_date r) of None \<Rightarrow> latest | Some b \<Rightarrow> b)}"

definition spec_exceptions ::
  "(string \<Rightarrow> date option) \<Rightarrow> exception_kind \<Rightarrow> calendar_date_row list option \<Rightarrow> date
     \<Rightarrow> string set" where
  "spec_exceptions parse k calendar_dates d =
     {s. \<exists>r \<in> set (table_rows calendar_dates).
           cd_service_id r = Some s \<and> to_datetime parse (cd_date r) = Some d \<and>
           kind_of r = Some k}"

text \<open>
  The trip descriptor an entity resolves to: the trip reference of the trip update if
  there is one, else that of the vehicle, else none.
\<close>

definition resolved_trip :: "feed_entity \<Rightarrow> trip_descriptor option" where
  "resolved_trip e =
     (case Option.bind (fe_trip_update e) tu_trip of
        Some t \<Rightarrow> Some t
      | None \<Rightarrow> Option.bind (fe_vehicle e) vp_trip)"

definition maps_to_route :: "trip_row list option \<Rightarrow> string \<Rightarrow> feed_entity \<Rightarrow> bool" where
  "maps_to_route trips r e =
     (case resolved_trip e of
        None \<Rightarrow> False
      | Some t \<Rightarrow> trip_to_route trips (Some (td_trip_id t)) = Some (Some r))"

definition vehicle_matches :: "string \<Rightarrow> feed_entity \<Rightarrow> bool" where
  "vehicle_matches v e =
     (case fe_vehicle e of
        None \<Rightarrow> False
      | Some veh \<Rightarrow> lower (vehicle_id_of veh) = lower v)"

subsection \<open>Inputs of the examples\<close>

text \<open>
  A parser for the examples: the eight-digit strings that the format \<^verbatim>\<open>%Y%m%d\<close> reads
  as the year, the month and the day of a calendar date.
\<close>

definition days_in_month :: "int \<Rightarrow> int \<Rightarrow> int" where
  "days_in_month y m =
     (if m = 2 \<and> is_leap y then 29
      else [31, 28, 31, 30, 31, 30, 31, 31, 30, 31, 30, 31] ! nat (m - 1))"

definition digits_value :: "string \<Rightarrow> int" where
  "digits_value ds = foldl (\<lambda>a c. a * 10 + digit_value c) 0 ds"

definition parse_Ymd :: "string \<Rightarrow> date option" where
  "parse_Ymd s =
     (if length s = 8 \<and> list_all is_digit s then
        (let y = digits_value (take 4 s);
             m = digits_value (take 2 (drop 4 s));
             d = digits_value (drop 6 s)
         in if 1 \<le> y \<and> 1 \<le> m \<and> m \<le> 12 \<and> 1 \<le> d \<and> d \<le> days_in_month y m
            then Some (Date y m d) else None)
      else None)"

text \<open>
  The calendar of the specification's scenario: service A runs on Mondays of 2024;
  service B is added and removed on Monday 2024-06-10. A third rule, C, runs every day
  from 2024 on and has no end date.
\<close>

definition rule_A :: calendar_row where
  "rule_A =
     \<lparr>cal_service_id = Some ''A'', cal_monday = Some ''1'', cal_tuesday = Some ''0'',
      cal_wednesday = Some ''0'', cal_thursday = Some ''0'', cal_friday = Some ''0'',
      cal_saturday = Some ''0'', cal_sunday = Some ''0'',
      cal_start_date = Some ''20240101'', cal_end_date = Some ''20241231''\<rparr>"

definition rule_C :: calendar_row where
  "rule_C =
     \<lparr>cal_service_id = Some ''C'', cal_monday = Some ''1'', cal_tuesday = Some ''1'',
      cal_wednesday = Some ''1'', cal_thursday = Some ''1'', cal_friday = Some ''1'',
      cal_saturday = Some ''1'', cal_sunday = Some ''1'',
      cal_start_date = Some ''20240101'', cal_end_date = None\<rparr>"

definition added_B :: calendar_date_row where
  "added_B = \<lparr>cd_service_id = Some ''B'', cd_date = Some ''20240610'', cd_exception_type = Some ''1''\<rparr>"

definition removed_B :: calendar_date_row where
  "removed_B = \<lparr>cd_service_id = Some ''B'', cd_date = Some ''20240610'', cd_exception_type = Some ''2''\<rparr>"

text \<open>Trips of two routes, and the stop times at the stops S and X.\<close>

definition ex_trip :: "string \<Rightarrow> string \<Rightarrow> string \<Rightarrow> trip_row" where
  "ex_trip tid rid sid =
     \<lparr>t_trip_id = Some tid, t_route_id = Some rid, t_service_id = Some sid,
      t_trip_headsign = None\<rparr>"

definition ex_trips :: "trip_row list" where
  "ex_trips = [ex_trip ''T1'' ''R1'' ''A'', ex_trip ''T2'' ''R1'' ''B'', ex_trip ''T3'' ''R2'' ''A'',
               ex_trip ''T4'' ''R1'' ''A'', ex_trip ''T5'' ''R2'' ''A'']"

definition ex_stop_time :: "string \<Rightarrow> string \<Rightarrow> string \<Rightarrow> stop_time_row" where
  "ex_stop_time tid sid dep =
     \<lparr>st_trip_id = Some tid, st_stop_id = Some sid, st_arrival_time = Some dep,
      st_departure_time = Some dep, st_stop_sequence = Some ''1''\<rparr>"

definition ex_stop_times :: "stop_time_row list" where
  "ex_stop_times =
     [ex_stop_time ''T1'' ''S'' ''08:05:00'', ex_stop_time ''T2'' ''S'' ''08:20:00'',
      ex_stop_time ''T3'' ''S'' ''25:10:00'', ex_stop_time ''T4'' ''S'' ''07:56:00'',
      ex_stop_time ''T5'' ''S'' ''07:50:00'', ex_stop_time ''T1'' ''X'' ''abc'']"

definition ex_query :: datetime where
  "ex_query = \<lparr>dt_date = Date 2024 6 10, dt_hour = 8, dt_minute = 0, dt_second = 0\<rparr>"

text \<open>
  The rows of stop S after the join, and the departures expected at 08:00:00 when no
  calendar is loaded.
\<close>

definition ex_merged_row :: "string \<Rightarrow> string \<Rightarrow> string \<Rightarrow> string \<Rightarrow> int \<Rightarrow> merged_row" where
  "ex_merged_row tid rid sid dep secs =
     \<lparr>mr_stop_time = ex_stop_time tid ''S'' dep, mr_dep_sec = Num secs,
      mr_route_id = Some rid, mr_service_id = Some sid\<rparr>"

definition ex_merged :: "merged_row list" where
  "ex_merged = merged_rows parse_Ymd ex_trips ex_stop_times None None ''S'' ex_query"

definition ex_upcoming :: "(merged_row \<times> pyval) list" where
  "ex_upcoming =
     [(ex_merged_row ''T4'' ''R1'' ''A'' ''07:56:00'' 28560, Num (- 240)),
      (ex_merged_row ''T1'' ''R1'' ''A'' ''08:05:00'' 29100, Num 300),
      (ex_merged_row ''T2'' ''R1'' ''B'' ''08:20:00'' 30000, Num 1200),
      (ex_merged_row ''T3'' ''R2'' ''A'' ''25:10:00'' 90600, Num 61800)]"

definition ex_unparsable :: merged_row where
  "ex_unparsable =
     \<lparr>mr_stop_time = ex_stop_time ''T1'' ''X'' ''abc'', mr_dep_sec = PyNone,
      mr_route_id = Some ''R1'', mr_service_id = Some ''A''\<rparr>"

text \<open>Stop Y, where one departure time parses and one does not.\<close>

definition ex_mixed_stop_times :: "stop_time_row list" where
  "ex_mixed_stop_times =
     [ex_stop_time ''T1'' ''Y'' ''abc'', ex_stop_time ''T4'' ''Y'' ''08:10:00'']"

text \<open>
  A feed of four entities: a trip update of trip T1, a vehicle ZG-8801-GR on trip T3, a
  trip update of trip T4 with a vehicle on trip T3, and an entity with neither.
\<close>

definition ex_descriptor :: "string \<Rightarrow> trip_descriptor" where
  "ex_descriptor tid = \<lparr>td_trip_id = tid, td_route_id = []\<rparr>"

definition ex_vehicle :: "string \<Rightarrow> string \<Rightarrow> vehicle_position" where
  "ex_vehicle tid vid =
     \<lparr>vp_trip = Some (ex_descriptor tid), vp_vehicle = Some \<lparr>vd_id = vid, vd_label = []\<rparr>\<rparr>"

definition ex_update :: "string \<Rightarrow> trip_update" where
  "ex_update tid =
     \<lparr>tu_trip = Some (ex_descriptor tid),
      tu_stop_time_update = [\<lparr>stu_stop_id = ''S'', stu_stop_sequence = 1\<rparr>]\<rparr>"

definition ex_feed :: "feed_entity list" where
  "ex_feed =
     [\<lparr>fe_id = ''e1'', fe_trip_update = Some (ex_update ''T1''), fe_vehicle = None\<rparr>,
      \<lparr>fe_id = ''e2'', fe_trip_update = None, fe_vehicle = Some (ex_vehicle ''T3'' ''ZG-8801-GR'')\<rparr>,
      \<lparr>fe_id = ''e3'', fe_trip_update = Some (ex_update ''T4''),
       fe_vehicle = Some (ex_vehicle ''T3'' ''432'')\<rparr>,
      \<lparr>fe_id = ''e4'', fe_trip_update = None, fe_vehicle = None\<rparr>]"

section \<open>The calendar resolver\<close>

subsection \<open>The sets behind the resolver\<close>

lemma set_dropna_tolist:
  "set (dropna_tolist (map f xs)) = {s. \<exists>r \<in> set xs. f r = Some s}"
  by (induction xs) (auto simp: dropna_tolist_def split: option.splits)

lemma weekday_range: "nat (weekday d) < 7"
  by (simp add: weekday_def nat_less_iff)

lemma weekday_bit:
  assumes "i < 7"
  shows "((weekdays ! i) r = Some ''1'') = weekday_mask r ! i"
proof -
  from assms have "i = 0 \<or> i = 1 \<or> i = 2 \<or> i = 3 \<or> i = 4 \<or> i = 5 \<or> i = 6" by arith
  then show ?thesis
    by (elim disjE) (simp_all add: weekdays_def weekday_mask_def)
qed

lemma valid_weekday_mask: "valid_weekday r d = weekday_mask r ! nat (weekday d)"
  unfolding valid_weekday_def by (rule weekday_bit [OF weekday_range])

lemma valid_date_sentinels:
  "valid_date parse r d =
     (date_le (case to_datetime parse (cal_start_date r) of None \<Rightarrow> Date 1900 1 1 | Some a \<Rightarrow> a) d \<and>
      date_le d (case to_datetime parse (cal_end_date r) of None \<Rightarrow> Date 2900 1 1 | Some b \<Rightarrow> b))"
  by (simp add: valid_date_def fillna_def)

lemma base_set:
  "set (dropna_tolist (map cal_service_id
      (filter (\<lambda>r. valid_date parse r d \<and> valid_weekday r d) cal)))
   = spec_base parse (Date 1900 1 1) (Date 2900 1 1) (Some cal) d"
  unfolding set_dropna_tolist spec_base_def table_rows_def
  by (auto simp: valid_date_sentinels valid_weekday_mask)

lemma kind_of_Added: "(kind_of r = Some Added) = (cd_exception_type r = Some ''1'')"
  by (simp add: kind_of_def)

lemma kind_of_Removed: "(kind_of r = Some Removed) = (cd_exception_type r = Some ''2'')"
  by (simp add: kind_of_def)

lemma exception_set_added:
  "set (dropna_tolist (map cd_service_id
      (filter (\<lambda>r. cd_exception_type r = Some ''1'')
         (filter (\<lambda>r. to_datetime parse (cd_date r) = Some d) cds))))
   = spec_exceptions parse Added (Some cds) d"
  unfolding set_dropna_tolist spec_exceptions_def table_rows_def kind_of_Added
  by auto

lemma exception_set_removed:
  "set (dropna_tolist (map cd_service_id
      (filter (\<lambda>r. cd_exception_type r = Some ''2'')
         (filter (\<lambda>r. to_datetime parse (cd_date r) = Some d) cds))))
   = spec_exceptions parse Removed (Some cds) d"
  unfolding set_dropna_tolist spec_exceptions_def table_rows_def kind_of_Removed
  by auto

lemma spec_base_None: "spec_base parse e l None d = {}"
  by (simp add: spec_base_def table_rows_def)

lemma spec_exceptions_None: "spec_exceptions parse k None d = {}"
  by (simp add: spec_exceptions_def table_rows_def)

lemma active_services_Some:
  "active_services parse calendar (Some cds) d =
     ((case calendar of None \<Rightarrow> {} | Some cal \<Rightarrow>
         set (dropna_tolist (map cal_service_id
           (filter (\<lambda>r. valid_date parse r d \<and> valid_weekday r d) cal))))
      \<union> spec_exceptions parse Added (Some cds) d)
     - spec_exceptions parse Removed (Some cds) d"
  unfolding exception_set_added [symmetric] exception_set_removed [symmetric]
  by (simp add: active_services_def Let_def del: filter_filter split: option.splits)

lemma active_services_None:
  "active_services parse calendar None d =
     (case calendar of None \<Rightarrow> {} | Some cal \<Rightarrow>
         set (dropna_tolist (map cal_service_id
           (filter (\<lambda>r. valid_date parse r d \<and> valid_weekday r d) cal))))"
  by (simp add: active_services_def Let_def split: option.splits)

text \<open>
  C1, amended. For every target date, the set that \<^verbatim>\<open>active_services\<close> returns is
  Base with Added joined and Removed taken away: Base holds the service ids of the
  calendar rules whose weekday bit for the weekday of the date is set and whose window
  from start date to end date contains the date, where a start date that is missing or
  does not parse counts as 1900-01-01 and such an end date as 2900-01-01, the sentinels
  of the code; Added and Removed hold the service ids of the exceptions of that date, of
  the one kind and of the other. A table that is absent has no rows.
\<close>

theorem active_services_base_added_removed:
  "active_services parse calendar calendar_dates d =
     (spec_base parse (Date 1900 1 1) (Date 2900 1 1) calendar d
        \<union> spec_exceptions parse Added calendar_dates d)
     - spec_exceptions parse Removed calendar_dates d"
proof (cases calendar_dates)
  case None
  then show ?thesis
    by (cases calendar)
      (simp_all add: active_services_None spec_base_None spec_exceptions_None base_set)
next
  case (Some cds)
  then show ?thesis
    by (cases calendar) (simp_all add: active_services_Some spec_base_None base_set)
qed

lemma parse_20240101: "parse_Ymd ''20240101'' = Some (Date 2024 1 1)" by code_simp
lemma parse_20240610: "parse_Ymd ''20240610'' = Some (Date 2024 6 10)" by code_simp
lemma weekday_20240610: "weekday (Date 2024 6 10) = 0" by code_simp
lemma weekday_29000615: "weekday (Date 2900 6 15) = 1" by code_simp

lemma scenario_value:
  "active_services parse_Ymd (Some [rule_A]) (Some [added_B, removed_B]) (Date 2024 6 10) = {''A''}"
  by code_simp

lemma scenario_added_only:
  "active_services parse_Ymd (Some [rule_A]) (Some [added_B]) (Date 2024 6 10) = {''A'', ''B''}"
  by code_simp

text \<open>
  The scenario of the specification: rule A on Monday 2024-06-10, with service B both
  added and removed on that date, leaves A alone.
\<close>

theorem active_services_base_added_removed_witness:
  "(spec_base parse_Ymd (Date 1900 1 1) (Date 2900 1 1) (Some [rule_A]) (Date 2024 6 10)
      \<union> spec_exceptions parse_Ymd Added (Some [added_B, removed_B]) (Date 2024 6 10))
   - spec_exceptions parse_Ymd Removed (Some [added_B, removed_B]) (Date 2024 6 10) = {''A''}"
  using active_services_base_added_removed
    [of parse_Ymd "Some [rule_A]" "Some [added_B, removed_B]" "Date 2024 6 10"]
    scenario_value
  by simp

subsection \<open>Removal after addition\<close>

lemma removed_not_active:
  assumes "s \<in> spec_exceptions parse Removed (Some cds) d"
  shows "s \<notin> active_services parse calendar (Some cds) d"
  using assms by (simp add: active_services_Some)

lemma removed_member:
  assumes "rr \<in> set cds" "cd_service_id rr = Some s"
    and "to_datetime parse (cd_date rr) = Some d" "cd_exception_type rr = Some ''2''"
  shows "s \<in> spec_exceptions parse Removed (Some cds) d"
  using assms unfolding spec_exceptions_def table_rows_def kind_of_Removed by auto

text \<open>
  C2. For every target date and every service id with both an Added and a Removed
  exception on that date, the set that \<^verbatim>\<open>active_services\<close> returns does not hold the
  service id, whatever the calendar rules say and in whatever order the rows of the
  exceptions stand: the conclusion is about any rearrangement \<open>cds'\<close> of the rows.
\<close>

theorem removed_exception_dominates:
  assumes "ra \<in> set cds" and "rr \<in> set cds"
    and "cd_service_id ra = Some s" and "cd_service_id rr = Some s"
    and "to_datetime parse (cd_date ra) = Some d" and "to_datetime parse (cd_date rr) = Some d"
    and "cd_exception_type ra = Some ''1''" and "cd_exception_type rr = Some ''2''"
    and "mset cds' = mset cds"
  shows "s \<notin> active_services parse calendar (Some cds') d"
proof -
  from \<open>mset cds' = mset cds\<close> have "set cds' = set cds" by (rule mset_eq_setD)
  with \<open>rr \<in> set cds\<close> have "rr \<in> set cds'" by simp
  then have "s \<in> spec_exceptions parse Removed (Some cds') d"
    using assms(4,6,8) by (rule removed_member)
  then show ?thesis by (rule removed_not_active)
qed

lemma to_datetime_20240610: "to_datetime parse_Ymd (Some ''20240610'') = Some (Date 2024 6 10)"
  by (simp add: to_datetime_def parse_20240610)

text \<open>Service B of the scenario, with the two exception rows in either order.\<close>

theorem removed_exception_dominates_witness:
  "added_B \<in> set [added_B, removed_B] \<and> removed_B \<in> set [added_B, removed_B] \<and>
   cd_service_id added_B = Some ''B'' \<and> cd_service_id removed_B = Some ''B'' \<and>
   to_datetime parse_Ymd (cd_date added_B) = Some (Date 2024 6 10) \<and>
   to_datetime parse_Ymd (cd_date removed_B) = Some (Date 2024 6 10) \<and>
   cd_exception_type added_B = Some ''1'' \<and> cd_exception_type removed_B = Some ''2'' \<and>
   mset [removed_B, added_B] = mset [added_B, removed_B] \<and>
   ''B'' \<notin> active_services parse_Ymd (Some [rule_A]) (Some [removed_B, added_B]) (Date 2024 6 10) \<and>
   ''B'' \<notin> active_services parse_Ymd (Some [rule_A]) (Some [added_B, removed_B]) (Date 2024 6 10)"
proof -
  have a: "added_B \<in> set [added_B, removed_B]" and r: "removed_B \<in> set [added_B, removed_B]"
    by simp_all
  have sa: "cd_service_id added_B = Some ''B''" and sr: "cd_service_id removed_B = Some ''B''"
    by (simp_all add: added_B_def removed_B_def)
  have da: "to_datetime parse_Ymd (cd_date added_B) = Some (Date 2024 6 10)"
    and dr: "to_datetime parse_Ymd (cd_date removed_B) = Some (Date 2024 6 10)"
    by (simp_all add: added_B_def removed_B_def to_datetime_20240610)
  have ka: "cd_exception_type added_B = Some ''1''" and kr: "cd_exception_type removed_B = Some ''2''"
    by (simp_all add: added_B_def removed_B_def)
  have p: "mset [removed_B, added_B] = mset [added_B, removed_B]" by (simp add: add.commute)
  have q: "mset [added_B, removed_B] = mset [added_B, removed_B]" by simp
  note removed_exception_dominates [OF a r sa sr da dr ka kr p, of "Some [rule_A]"]
    removed_exception_dominates [OF a r sa sr da dr ka kr q, of "Some [rule_A]"]
  with a r sa sr da dr ka kr p show ?thesis by blast
qed

subsection \<open>The sentinels of a missing bound\<close>

lemma base_member:
  assumes "r \<in> set cal" "cal_service_id r = Some s" "valid_weekday r d" "valid_date parse r d"
  shows "s \<in> spec_base parse (Date 1900 1 1) (Date 2900 1 1) (Some cal) d"
  using assms unfolding spec_base_def table_rows_def valid_date_sentinels valid_weekday_mask
  by auto

lemma active_if_base:
  assumes "s \<in> spec_base parse (Date 1900 1 1) (Date 2900 1 1) (Some cal) d"
    and "s \<notin> spec_exceptions parse Removed calendar_dates d"
  shows "s \<in> active_services parse (Some cal) calendar_dates d"
proof (cases calendar_dates)
  case None
  with assms show ?thesis by (simp add: active_services_None base_set)
next
  case (Some cds)
  with assms show ?thesis by (simp add: active_services_Some base_set)
qed

text \<open>
  C3, amended. The code fills a start date that is missing or does not parse with
  1900-01-01 and such an end date with 2900-01-01. So a rule without an end date, whose
  weekday bit is set, whose start bound holds and whose service is not removed on the
  date, is active on every date up to 2900-01-01; and a rule without a start date is,
  under the like conditions, active on every date from 1900-01-01 on.
\<close>

theorem missing_bound_sentinels:
  assumes "r \<in> set cal" and "cal_service_id r = Some s" and "valid_weekday r d"
    and "s \<notin> spec_exceptions parse Removed calendar_dates d"
  shows "(to_datetime parse (cal_end_date r) = None \<and> date_le d (Date 2900 1 1) \<and>
          date_le (fillna (to_datetime parse (cal_start_date r)) (Date 1900 1 1)) d
            \<longrightarrow> s \<in> active_services parse (Some cal) calendar_dates d) \<and>
         (to_datetime parse (cal_start_date r) = None \<and> date_le (Date 1900 1 1) d \<and>
          date_le d (fillna (to_datetime parse (cal_end_date r)) (Date 2900 1 1))
            \<longrightarrow> s \<in> active_services parse (Some cal) calendar_dates d)"
proof (intro conjI impI)
  assume "to_datetime parse (cal_end_date r) = None \<and> date_le d (Date 2900 1 1) \<and>
          date_le (fillna (to_datetime parse (cal_start_date r)) (Date 1900 1 1)) d"
  then have "valid_date parse r d" by (simp add: valid_date_def fillna_def)
  with assms(1-3) have "s \<in> spec_base parse (Date 1900 1 1) (Date 2900 1 1) (Some cal) d"
    by (rule base_member)
  then show "s \<in> active_services parse (Some cal) calendar_dates d"
    using assms(4) by (rule active_if_base)
next
  assume "to_datetime parse (cal_start_date r) = None \<and> date_le (Date 1900 1 1) d \<and>
          date_le d (fillna (to_datetime parse (cal_end_date r)) (Date 2900 1 1))"
  then have "valid_date parse r d" by (simp add: valid_date_def fillna_def)
  with assms(1-3) have "s \<in> spec_base parse (Date 1900 1 1) (Date 2900 1 1) (Some cal) d"
    by (rule base_member)
  then show "s \<in> active_services parse (Some cal) calendar_dates d"
    using assms(4) by (rule active_if_base)
qed

lemma rule_C_facts:
  "cal_service_id rule_C = Some ''C''"
  "to_datetime parse_Ymd (cal_end_date rule_C) = None"
  "to_datetime parse_Ymd (cal_start_date rule_C) = Some (Date 2024 1 1)"
  by (simp_all add: rule_C_def to_datetime_def parse_20240101)

lemma rule_C_weekday_20240610: "valid_weekday rule_C (Date 2024 6 10)"
  by (simp add: valid_weekday_def weekday_20240610 weekdays_def rule_C_def)

lemma rule_C_weekday_29000615: "valid_weekday rule_C (Date 2900 6 15)"
  by (simp add: valid_weekday_def weekday_29000615 weekdays_def rule_C_def)

text \<open>Rule C, without an end date, is active on Monday 2024-06-10.\<close>

theorem missing_bound_sentinels_witness:
  "rule_C \<in> set [rule_A, rule_C] \<and> cal_service_id rule_C = Some ''C'' \<and>
   valid_weekday rule_C (Date 2024 6 10) \<and>
   ''C'' \<notin> spec_exceptions parse_Ymd Removed (Some [added_B, removed_B]) (Date 2024 6 10) \<and>
   to_datetime parse_Ymd (cal_end_date rule_C) = None \<and>
   date_le (Date 2024 6 10) (Date 2900 1 1) \<and>
   date_le (fillna (to_datetime parse_Ymd (cal_start_date rule_C)) (Date 1900 1 1)) (Date 2024 6 10) \<and>
   ''C'' \<in> active_services parse_Ymd (Some [rule_A, rule_C]) (Some [added_B, removed_B]) (Date 2024 6 10)"
proof -
  have m: "rule_C \<in> set [rule_A, rule_C]" by simp
  have x: "''C'' \<notin> spec_exceptions parse_Ymd Removed (Some [added_B, removed_B]) (Date 2024 6 10)"
    by (simp add: spec_exceptions_def table_rows_def added_B_def removed_B_def)
  have e: "date_le (Date 2024 6 10) (Date 2900 1 1)" by (simp add: date_le_def)
  have b: "date_le (fillna (to_datetime parse_Ymd (cal_start_date rule_C)) (Date 1900 1 1))
             (Date 2024 6 10)"
    by (simp add: rule_C_facts fillna_def date_le_def)
  from missing_bound_sentinels [OF m rule_C_facts(1) rule_C_weekday_20240610 x]
    rule_C_facts(2) e b
  have "''C'' \<in> active_services parse_Ymd (Some [rule_A, rule_C]) (Some [added_B, removed_B])
          (Date 2024 6 10)"
    by blast
  with m x e b rule_C_facts rule_C_weekday_20240610 show ?thesis by simp
qed

text \<open>
  C3 as stated fails: on 2900-06-15, a Tuesday not after 2900-12-31, rule C has every
  weekday bit set, a start date before the date and no end date, and no exception
  removes it; with the sentinel 2900-12-31 it would be in Base, and the code leaves it
  out.
\<close>

theorem latest_sentinel_counterexample:
  "rule_C \<in> set [rule_C] \<and> cal_service_id rule_C = Some ''C'' \<and>
   valid_weekday rule_C (Date 2900 6 15) \<and>
   to_datetime parse_Ymd (cal_end_date rule_C) = None \<and>
   date_le (fillna (to_datetime parse_Ymd (cal_start_date rule_C)) (Date 1900 1 1)) (Date 2900 6 15) \<and>
   date_le (Date 2900 6 15) (Date 2900 12 31) \<and>
   ''C'' \<in> spec_base parse_Ymd (Date 1900 1 1) (Date 2900 12 31) (Some [rule_C]) (Date 2900 6 15) \<and>
   ''C'' \<notin> active_services parse_Ymd (Some [rule_C]) None (Date 2900 6 15)"
proof -
  have b: "date_le (fillna (to_datetime parse_Ymd (cal_start_date rule_C)) (Date 1900 1 1))
             (Date 2900 6 15)"
    by (simp add: rule_C_facts fillna_def date_le_def)
  have l: "date_le (Date 2900 6 15) (Date 2900 12 31)" by (simp add: date_le_def)
  have nv: "\<not> valid_date parse_Ymd rule_C (Date 2900 6 15)"
    by (simp add: valid_date_def rule_C_facts fillna_def date_le_def)
  have s: "''C'' \<in> spec_base parse_Ymd (Date 1900 1 1) (Date 2900 12 31) (Some [rule_C]) (Date 2900 6 15)"
    using rule_C_weekday_29000615
    by (simp add: spec_base_def table_rows_def rule_C_facts valid_weekday_mask date_le_def)
  have n: "''C'' \<notin> active_services parse_Ymd (Some [rule_C]) None (Date 2900 6 15)"
    using nv by (simp add: active_services_None dropna_tolist_def)
  from b l s n rule_C_facts rule_C_weekday_29000615 show ?thesis by simp
qed

text \<open>
  C1 as stated fails: with the sentinels of the specification, 1900-01-01 and
  2900-12-31, Base holds the service of rule C on 2900-06-15, no exception removes it,
  and the set that \<^verbatim>\<open>active_services\<close> returns does not hold it.
\<close>

theorem spec_sentinel_resolver_counterexample:
  "''C'' \<in> (spec_base parse_Ymd (Date 1900 1 1) (Date 2900 12 31) (Some [rule_C]) (Date 2900 6 15)
            \<union> spec_exceptions parse_Ymd Added None (Date 2900 6 15))
           - spec_exceptions parse_Ymd Removed None (Date 2900 6 15) \<and>
   ''C'' \<notin> active_services parse_Ymd (Some [rule_C]) None (Date 2900 6 15) \<and>
   active_services parse_Ymd (Some [rule_C]) None (Date 2900 6 15)
     \<noteq> (spec_base parse_Ymd (Date 1900 1 1) (Date 2900 12 31) (Some [rule_C]) (Date 2900 6 15)
          \<union> spec_exceptions parse_Ymd Added None (Date 2900 6 15))
         - spec_exceptions parse_Ymd Removed None (Date 2900 6 15)"
proof -
  have "weekday_mask rule_C ! nat (weekday (Date 2900 6 15))"
    using rule_C_weekday_29000615 by (simp add: valid_weekday_mask)
  then have "''C'' \<in> spec_base parse_Ymd (Date 1900 1 1) (Date 2900 12 31) (Some [rule_C])
                      (Date 2900 6 15)"
    by (simp add: spec_base_def table_rows_def rule_C_facts date_le_def)
  then have i: "''C'' \<in> (spec_base parse_Ymd (Date 1900 1 1) (Date 2900 12 31) (Some [rule_C])
                           (Date 2900 6 15)
                         \<union> spec_exceptions parse_Ymd Added None (Date 2900 6 15))
                        - spec_exceptions parse_Ymd Removed None (Date 2900 6 15)"
    by (simp add: spec_exceptions_None)
  have "\<not> valid_date parse_Ymd rule_C (Date 2900 6 15)"
    by (simp add: valid_date_def rule_C_facts fillna_def date_le_def)
  then have o: "''C'' \<notin> active_services parse_Ymd (Some [rule_C]) None (Date 2900 6 15)"
    by (simp add: active_services_None dropna_tolist_def)
  from i o show ?thesis by blast
qed

section \<open>Service times\<close>

lemma split_on_no_sep: "sep \<notin> set a \<Longrightarrow> split_on sep a = [a]"
  by (induction a) auto

lemma split_on_append:
  "sep \<notin> set a \<Longrightarrow> split_on sep (a @ sep # rest) = a # split_on sep rest"
  by (induction a) auto

lemma split_on_three:
  assumes "sep \<notin> set a" "sep \<notin> set b" "sep \<notin> set c"
  shows "split_on sep (a @ sep # b @ sep # c) = [a, b, c]"
  using assms by (simp add: split_on_append split_on_no_sep)

lemma py_int_examples:
  "py_int ''25'' = Some 25" "py_int ''10'' = Some 10" "py_int ''00'' = Some 0"
  "py_int ''08'' = Some 8" "py_int ''05'' = Some 5"
  by code_simp+

text \<open>
  C6. \<^verbatim>\<open>time_str_to_seconds\<close> maps a string of three fields separated by colons, whose
  fields \<^verbatim>\<open>int\<close> reads as h, m and s, to h * 3600 + m * 60 + s, whatever the size of the
  hour; it maps 25:10:00 to 90600 and 08:05:00 to 29100.
\<close>

theorem time_str_to_seconds_hms:
  assumes "CHR '':'' \<notin> set a" and "CHR '':'' \<notin> set b" and "CHR '':'' \<notin> set c"
    and "py_int a = Some h" and "py_int b = Some m" and "py_int c = Some s"
  shows "time_str_to_seconds (a @ '':'' @ b @ '':'' @ c) = Some (h * 3600 + m * 60 + s) \<and>
         time_str_to_seconds ''25:10:00'' = Some 90600 \<and>
         time_str_to_seconds ''08:05:00'' = Some 29100"
proof (intro conjI)
  have "split_on CHR '':'' (a @ '':'' @ b @ '':'' @ c) = [a, b, c]"
    using split_on_three [OF assms(1-3)] by simp
  then show "time_str_to_seconds (a @ '':'' @ b @ '':'' @ c) = Some (h * 3600 + m * 60 + s)"
    by (simp add: time_str_to_seconds_def assms(4-6))
  show "time_str_to_seconds ''25:10:00'' = Some 90600" by code_simp
  show "time_str_to_seconds ''08:05:00'' = Some 29100" by code_simp
qed

text \<open>The departure 24:05:00 of the specification's scenario is 86700 seconds.\<close>

theorem time_str_to_seconds_hms_witness:
  "CHR '':'' \<notin> set ''24'' \<and> CHR '':'' \<notin> set ''05'' \<and> CHR '':'' \<notin> set ''00'' \<and>
   py_int ''24'' = Some 24 \<and> py_int ''05'' = Some 5 \<and> py_int ''00'' = Some 0 \<and>
   time_str_to_seconds ''24:05:00'' = Some 86700"
proof -
  have c: "CHR '':'' \<notin> set ''24''" "CHR '':'' \<notin> set ''05''" "CHR '':'' \<notin> set ''00''"
    by simp_all
  have p: "py_int ''24'' = Some 24" "py_int ''05'' = Some 5" "py_int ''00'' = Some 0"
    by code_simp+
  from time_str_to_seconds_hms [OF c p]
  have "time_str_to_seconds ''24:05:00'' = Some 86700" by simp
  with c p show ?thesis by simp
qed

section \<open>Departures at a stop\<close>

subsection \<open>Filter, sort, head\<close>

lemma kept_rows_iff:
  "((m, v) \<in> set (kept_rows sec M)) =
     (m \<in> set M \<and> v = delta_of sec (mr_dep_sec m) \<and> delta_ge v (- 300))"
  by (auto simp: kept_rows_def with_delta_def)

lemma kept_rows_Num:
  assumes "mr_dep_sec m = Num D"
  shows "((m, Num (D - sec)) \<in> set (kept_rows sec M)) = (m \<in> set M \<and> - 300 \<le> D - sec)"
  by (simp add: kept_rows_iff assms delta_of_def delta_ge_def)

lemma kept_rows_numeric:
  assumes "r \<in> set (kept_rows sec M)"
  shows "\<exists>x. snd r = Num x \<and> - 300 \<le> x"
  using assms by (auto simp: kept_rows_def delta_ge_def split: pyval.splits)

lemma delta_key_Num_le: "(delta_key (Num x) \<le> delta_key (Num y)) = (x \<le> y)"
  by (simp add: delta_key_def)

lemma sorted_numeric:
  assumes "\<forall>r \<in> set rows. \<exists>x. snd r = Num x"
  shows "sorted_wrt (\<lambda>a b. \<exists>x y. snd a = Num x \<and> snd b = Num y \<and> x \<le> y)
           (sort_values_delta rows)"
proof -
  have "sorted (map (\<lambda>r. delta_key (snd r)) (sort_values_delta rows))"
    by (simp add: sort_values_delta_def)
  then have s: "sorted_wrt (\<lambda>a b. delta_key (snd a) \<le> delta_key (snd b))
                  (sort_values_delta rows)"
    by (simp add: sorted_map)
  have n: "\<forall>r \<in> set (sort_values_delta rows). \<exists>x. snd r = Num x"
    using assms by (simp add: sort_values_delta_def)
  show ?thesis
  proof (rule sorted_wrt_mono_rel [OF _ s])
    fix p q
    assume p: "p \<in> set (sort_values_delta rows)" and q: "q \<in> set (sort_values_delta rows)"
      and le: "delta_key (snd p) \<le> delta_key (snd q)"
    from n p obtain x where x: "snd p = Num x" by blast
    from n q obtain y where y: "snd q = Num y" by blast
    from le x y have "x \<le> y" by (simp add: delta_key_Num_le)
    with x y show "\<exists>x y. snd p = Num x \<and> snd q = Num y \<and> x \<le> y" by blast
  qed
qed

lemma sorted_kept:
  "sorted_wrt (\<lambda>a b. \<exists>x y. snd a = Num x \<and> snd b = Num y \<and> x \<le> y)
     (sort_values_delta (kept_rows sec M))"
  by (rule sorted_numeric) (blast dest: kept_rows_numeric)

lemma mset_sort_values_delta: "mset (sort_values_delta rows) = mset rows"
  by (simp add: sort_values_delta_def)

lemma search_Upcoming:
  assumes "search_by_stop_id_upcoming parse (Some trs) (Some sts) calendar calendar_dates sid
             (Some dt) = Upcoming out"
  shows "out = upcoming_rows (query_seconds dt)
                 (merged_rows parse trs sts calendar calendar_dates sid dt)"
  using assms by (simp add: search_by_stop_id_upcoming_def split: list.splits)

text \<open>
  C4. When the projector returns departures \<open>out\<close> for a stop and a query time of Q
  seconds: a joined row with parsed departure seconds D is among the rows the filter
  keeps, with delta D - Q, if and only if it is a row of the stop (that passed the
  service filter) and D - Q is at least -300; \<open>out\<close> is the first 50 of the kept rows
  sorted by delta, the sorting only rearranges the kept rows, the deltas of \<open>out\<close>
  ascend, and \<open>out\<close> has at most 50 rows.
\<close>

theorem upcoming_filter_sort_head:
  assumes "search_by_stop_id_upcoming parse (Some trs) (Some sts) calendar calendar_dates sid
             (Some dt) = Upcoming out"
    and "mr_dep_sec m = Num D"
  shows "(let Q = query_seconds dt;
              M = merged_rows parse trs sts calendar calendar_dates sid dt;
              K = kept_rows Q M
          in ((m, Num (D - Q)) \<in> set K) = (m \<in> set M \<and> - 300 \<le> D - Q) \<and>
             out = take 50 (sort_values_delta K) \<and>
             mset (sort_values_delta K) = mset K \<and>
             sorted_wrt (\<lambda>a b. \<exists>x y. snd a = Num x \<and> snd b = Num y \<and> x \<le> y) out \<and>
             length out \<le> 50)"
proof -
  let ?Q = "query_seconds dt"
  let ?M = "merged_rows parse trs sts calendar calendar_dates sid dt"
  let ?K = "kept_rows ?Q ?M"
  have out: "out = take 50 (sort_values_delta ?K)"
    using search_Upcoming [OF assms(1)] by (simp add: upcoming_rows_def)
  have 1: "((m, Num (D - ?Q)) \<in> set ?K) = (m \<in> set ?M \<and> - 300 \<le> D - ?Q)"
    using assms(2) by (rule kept_rows_Num)
  have 3: "mset (sort_values_delta ?K) = mset ?K" by (rule mset_sort_values_delta)
  have 4: "sorted_wrt (\<lambda>a b. \<exists>x y. snd a = Num x \<and> snd b = Num y \<and> x \<le> y) out"
    unfolding out by (rule sorted_wrt_take [OF sorted_kept])
  have 5: "length out \<le> 50" unfolding out by simp
  from 1 out 3 4 5 show ?thesis unfolding Let_def by blast
qed

lemma ex_search_S:
  "search_by_stop_id_upcoming parse_Ymd (Some ex_trips) (Some ex_stop_times) None None ''S''
     (Some ex_query) = Upcoming ex_upcoming"
  by code_simp

lemma ex_T4_member: "ex_merged_row ''T4'' ''R1'' ''A'' ''07:56:00'' 28560 \<in> set ex_merged"
  by code_simp

lemma ex_T5_member: "ex_merged_row ''T5'' ''R2'' ''A'' ''07:50:00'' 28200 \<in> set ex_merged"
  by code_simp


lemma ex_query_seconds: "query_seconds ex_query = 28800"
  by (simp add: query_seconds_def ex_query_def)

lemma ex_dep_sec:
  "mr_dep_sec (ex_merged_row ''T4'' ''R1'' ''A'' ''07:56:00'' 28560) = Num 28560"
  "mr_dep_sec (ex_merged_row ''T5'' ''R2'' ''A'' ''07:50:00'' 28200) = Num 28200"
  by (simp_all add: ex_merged_row_def)

text \<open>
  Stop S at 08:00:00: the departure of 07:56:00 is kept, that of 07:50:00 is not, and
  the four kept rows come out by ascending delta.
\<close>

theorem upcoming_filter_sort_head_witness:
  "search_by_stop_id_upcoming parse_Ymd (Some ex_trips) (Some ex_stop_times) None None ''S''
     (Some ex_query) = Upcoming ex_upcoming \<and>
   (ex_merged_row ''T4'' ''R1'' ''A'' ''07:56:00'' 28560, Num (- 240))
     \<in> set (kept_rows 28800 ex_merged) \<and>
   (ex_merged_row ''T5'' ''R2'' ''A'' ''07:50:00'' 28200, Num (- 600))
     \<notin> set (kept_rows 28800 ex_merged) \<and>
   ex_upcoming = take 50 (sort_values_delta (kept_rows 28800 ex_merged)) \<and>
   sorted_wrt (\<lambda>a b. \<exists>x y. snd a = Num x \<and> snd b = Num y \<and> x \<le> y) ex_upcoming \<and>
   length ex_upcoming \<le> 50"
  using upcoming_filter_sort_head [OF ex_search_S ex_dep_sec(1)]
    upcoming_filter_sort_head [OF ex_search_S ex_dep_sec(2)]
    ex_search_S ex_T4_member ex_T5_member
  by (simp add: Let_def ex_query_seconds ex_merged_def [symmetric])

subsection \<open>Rows without a parsable departure time\<close>

lemma series_apply_all_None:
  assumes "list_all (\<lambda>x. f x = None) col"
  shows "series_apply f col = map (\<lambda>x. PyNone) col"
proof -
  from assms have "\<not> list_ex (\<lambda>x. x \<noteq> None) (map f col)"
    by (simp add: list_all_iff list_ex_iff)
  then show ?thesis by (simp add: series_apply_def Let_def)
qed

lemma stop_rows_all_None:
  assumes "list_all (\<lambda>r. dep_sec_of (st_departure_time r) = None)
             (filter (\<lambda>r. st_stop_id r = Some sid) sts)"
  shows "stop_rows sid sts = map (\<lambda>r. (r, PyNone)) (filter (\<lambda>r. st_stop_id r = Some sid) sts)"
proof -
  let ?rows = "filter (\<lambda>r. st_stop_id r = Some sid) sts"
  from assms have "list_all (\<lambda>t. dep_sec_of t = None) (map st_departure_time ?rows)"
    by (simp add: list_all_iff)
  then have "series_apply dep_sec_of (map st_departure_time ?rows)
               = map (\<lambda>x. PyNone) (map st_departure_time ?rows)"
    by (rule series_apply_all_None)
  then show ?thesis
    by (simp add: stop_rows_def Let_def zip_map2 zip_same_conv_map)
qed

lemma merge_left_dep_sec:
  assumes "m \<in> set (merge_left rows trs)"
  shows "mr_dep_sec m \<in> snd ` set rows"
proof -
  from assms obtain s v where sv: "(s, v) \<in> set rows"
    and m: "m \<in> set (case filter (\<lambda>t. t_trip_id t = st_trip_id s) trs of
                [] \<Rightarrow> [\<lparr>mr_stop_time = s, mr_dep_sec = v, mr_route_id = None,
                        mr_service_id = None\<rparr>]
              | t # ts \<Rightarrow>
                  map (\<lambda>t. \<lparr>mr_stop_time = s, mr_dep_sec = v, mr_route_id = t_route_id t,
                            mr_service_id = t_service_id t\<rparr>) (t # ts))"
    by (auto simp: merge_left_def)
  from m have "mr_dep_sec m = v" by (auto split: list.splits)
  with sv show ?thesis by force
qed

lemma service_filter_subset: "set (service_filter active M) \<subseteq> set M"
  by (auto simp: service_filter_def)

lemma merged_rows_all_None:
  assumes "list_all (\<lambda>r. dep_sec_of (st_departure_time r) = None)
             (filter (\<lambda>r. st_stop_id r = Some sid) sts)"
    and "m \<in> set (merged_rows parse trs sts calendar calendar_dates sid dt)"
  shows "mr_dep_sec m = PyNone"
proof -
  from assms(2) have "m \<in> set (merge_left (stop_rows sid sts) trs)"
    using service_filter_subset by (auto simp: merged_rows_def Let_def)
  then have "mr_dep_sec m \<in> snd ` set (stop_rows sid sts)" by (rule merge_left_dep_sec)
  then show ?thesis by (auto simp: stop_rows_all_None [OF assms(1)])
qed

lemma kept_rows_all_None:
  assumes "\<forall>m \<in> set M. mr_dep_sec m = PyNone"
  shows "kept_rows sec M = map (\<lambda>m. (m, Num 999999)) M"
proof -
  from assms have "with_delta sec M = map (\<lambda>m. (m, Num 999999)) M"
    by (simp add: with_delta_def delta_of_def)
  then show ?thesis by (simp add: kept_rows_def delta_ge_def)
qed

lemma search_stop_has_rows:
  assumes "filter (\<lambda>r. st_stop_id r = Some sid) sts \<noteq> []"
  shows "search_by_stop_id_upcoming parse (Some trs) (Some sts) calendar calendar_dates sid
           (Some dt)
         = Upcoming (upcoming_rows (query_seconds dt)
             (merged_rows parse trs sts calendar calendar_dates sid dt))"
proof -
  have "length (stop_rows sid sts) = length (filter (\<lambda>r. st_stop_id r = Some sid) sts)"
    by (simp add: stop_rows_def Let_def series_apply_def)
  with assms have "stop_rows sid sts \<noteq> []" by auto
  then show ?thesis
    by (simp add: search_by_stop_id_upcoming_def split: list.splits)
qed

text \<open>
  C5, amended. When no stop time of the stop has a departure time that parses, the
  column \<^verbatim>\<open>dep_sec\<close> holds \<^verbatim>\<open>None\<close> and every joined row of the stop gets the delta
  999999; the delta filter keeps every such row, since 999999 is not below -300, and
  the projector returns the first 50 of them, all of them when they are at most 50.
\<close>

theorem unparsable_rows_keep_sentinel:
  assumes "list_all (\<lambda>r. dep_sec_of (st_departure_time r) = None)
             (filter (\<lambda>r. st_stop_id r = Some sid) sts)"
    and "filter (\<lambda>r. st_stop_id r = Some sid) sts \<noteq> []"
  shows "(let Q = query_seconds dt;
              M = merged_rows parse trs sts calendar calendar_dates sid dt;
              K = kept_rows Q M
          in K = map (\<lambda>m. (m, Num 999999)) M \<and>
             search_by_stop_id_upcoming parse (Some trs) (Some sts) calendar calendar_dates sid
               (Some dt) = Upcoming (take 50 (sort_values_delta K)) \<and>
             mset (sort_values_delta K) = mset K \<and>
             (length M \<le> 50 \<longrightarrow>
                search_by_stop_id_upcoming parse (Some trs) (Some sts) calendar calendar_dates
                  sid (Some dt) = Upcoming (sort_values_delta K)))"
proof -
  let ?Q = "query_seconds dt"
  let ?M = "merged_rows parse trs sts calendar calendar_dates sid dt"
  let ?K = "kept_rows ?Q ?M"
  have "\<forall>m \<in> set ?M. mr_dep_sec m = PyNone"
    using merged_rows_all_None [OF assms(1)] by blast
  then have 1: "?K = map (\<lambda>m. (m, Num 999999)) ?M" by (rule kept_rows_all_None)
  have 2: "search_by_stop_id_upcoming parse (Some trs) (Some sts) calendar calendar_dates sid
             (Some dt) = Upcoming (take 50 (sort_values_delta ?K))"
    using search_stop_has_rows [OF assms(2)] by (simp add: upcoming_rows_def)
  have 3: "mset (sort_values_delta ?K) = mset ?K" by (rule mset_sort_values_delta)
  have "length (sort_values_delta ?K) = length ?M"
    by (simp add: sort_values_delta_def 1)
  then have 4: "length ?M \<le> 50 \<longrightarrow> take 50 (sort_values_delta ?K) = sort_values_delta ?K"
    by simp
  from 1 2 3 4 show ?thesis unfolding Let_def by metis
qed

lemma ex_X_rows:
  "list_all (\<lambda>r. dep_sec_of (st_departure_time r) = None)
     (filter (\<lambda>r. st_stop_id r = Some ''X'') ex_stop_times)"
  "filter (\<lambda>r. st_stop_id r = Some ''X'') ex_stop_times \<noteq> []"
  by code_simp+

lemma ex_X_merged:
  "merged_rows parse_Ymd ex_trips ex_stop_times None None ''X'' ex_query = [ex_unparsable]"
  by code_simp

text \<open>Stop X, whose one stop time has the departure time abc.\<close>

theorem unparsable_rows_keep_sentinel_witness:
  "kept_rows 28800 [ex_unparsable] = [(ex_unparsable, Num 999999)] \<and>
   search_by_stop_id_upcoming parse_Ymd (Some ex_trips) (Some ex_stop_times) None None ''X''
     (Some ex_query) = Upcoming (sort_values_delta [(ex_unparsable, Num 999999)])"
  using unparsable_rows_keep_sentinel [OF ex_X_rows, of ex_query parse_Ymd ex_trips None None]
  by (auto simp add: Let_def ex_X_merged ex_query_seconds)

text \<open>
  C5 as stated fails: at stop X the row whose departure time is abc, which does not
  parse, is in the output of the projector, with delta 999999.
\<close>

theorem unparsable_row_counterexample:
  "dep_sec_of (st_departure_time (ex_stop_time ''T1'' ''X'' ''abc'')) = None \<and>
   search_by_stop_id_upcoming parse_Ymd (Some ex_trips) (Some ex_stop_times) None None ''X''
     (Some ex_query) = Upcoming [(ex_unparsable, Num 999999)] \<and>
   mr_stop_time ex_unparsable = ex_stop_time ''T1'' ''X'' ''abc''"
  by code_simp

text \<open>
  At stop Y the column \<^verbatim>\<open>dep_sec\<close> is numeric: the row that does not parse holds NaN,
  its delta is NaN, and the filter drops it.
\<close>

lemma mixed_column_example:
  "map (\<lambda>r. (st_departure_time (mr_stop_time (fst r)), snd r))
     (upcoming_rows (query_seconds ex_query)
        (merged_rows parse_Ymd ex_trips ex_mixed_stop_times None None ''Y'' ex_query))
   = [(Some ''08:10:00'', Num 600)]"
  by code_simp

subsection \<open>The empty set of active services\<close>

lemma builder_trip_ids:
  "map ts_trip_id (get_static_trips_for_route (Some trs) (Some sts) stops route_id active)
     = map t_trip_id (cand_trips trs route_id active)"
  by (simp add: get_static_trips_for_route_def Let_def comp_def)

lemma cand_trips_empty:
  "cand_trips trs route_id {} = filter (\<lambda>t. t_route_id t = Some route_id) trs"
  by (simp add: cand_trips_def)

lemma cand_trips_nonempty:
  "active \<noteq> {} \<Longrightarrow> cand_trips trs route_id active
     = filter (\<lambda>t. t_route_id t = Some route_id \<and> isin (t_service_id t) active) trs"
  by (simp add: cand_trips_def Let_def conj_commute)

text \<open>
  C9. With the tables loaded: when the set of active services given to
  \<^verbatim>\<open>get_static_trips_for_route\<close> is empty, the schedules it builds are those of all
  the trips of the route, in the order of the table; when the set is not empty, those
  of the trips of the route whose service is in the set. Likewise the projector, at a
  stop that has stop times: when the active services of the date are none, the
  departures are computed from all the joined rows of the stop; otherwise from the
  joined rows whose service is active.
\<close>

theorem empty_active_set_is_no_filter:
  "(let A = active_services parse calendar calendar_dates (dt_date dt);
        S = filter (\<lambda>r. st_stop_id r = Some sid) sts;
        J = merge_left (stop_rows sid sts) trs;
        Q = query_seconds dt
    in (active = {} \<longrightarrow>
          map ts_trip_id (get_static_trips_for_route (Some trs) (Some sts) stops route_id active)
            = map t_trip_id (filter (\<lambda>t. t_route_id t = Some route_id) trs)) \<and>
       (active \<noteq> {} \<longrightarrow>
          map ts_trip_id (get_static_trips_for_route (Some trs) (Some sts) stops route_id active)
            = map t_trip_id (filter (\<lambda>t. t_route_id t = Some route_id \<and>
                                        isin (t_service_id t) active) trs)) \<and>
       (S \<noteq> [] \<and> A = {} \<longrightarrow>
          search_by_stop_id_upcoming parse (Some trs) (Some sts) calendar calendar_dates sid
            (Some dt) = Upcoming (upcoming_rows Q J)) \<and>
       (S \<noteq> [] \<and> A \<noteq> {} \<longrightarrow>
          search_by_stop_id_upcoming parse (Some trs) (Some sts) calendar calendar_dates sid
            (Some dt)
            = Upcoming (upcoming_rows Q (filter (\<lambda>m. isin (mr_service_id m) A) J))))"
proof -
  let ?A = "active_services parse calendar calendar_dates (dt_date dt)"
  let ?J = "merge_left (stop_rows sid sts) trs"
  have m: "merged_rows parse trs sts calendar calendar_dates sid dt = service_filter ?A ?J"
    by (simp add: merged_rows_def Let_def)
  have s: "filter (\<lambda>r. st_stop_id r = Some sid) sts \<noteq> [] \<Longrightarrow>
           search_by_stop_id_upcoming parse (Some trs) (Some sts) calendar calendar_dates sid
             (Some dt) = Upcoming (upcoming_rows (query_seconds dt) (service_filter ?A ?J))"
    using search_stop_has_rows [of sid sts parse trs calendar calendar_dates dt]
    by (simp add: m)
  show ?thesis
    unfolding Let_def
    by (simp add: builder_trip_ids cand_trips_empty cand_trips_nonempty s service_filter_def)
qed

lemma ex_builder_all:
  "map t_trip_id (filter (\<lambda>t. t_route_id t = Some ''R1'') ex_trips)
     = [Some ''T1'', Some ''T2'', Some ''T4'']"
  by code_simp

lemma ex_builder_A:
  "map t_trip_id (filter (\<lambda>t. t_route_id t = Some ''R1'' \<and> isin (t_service_id t) {''A''}) ex_trips)
     = [Some ''T1'', Some ''T4'']"
  by code_simp

lemma ex_S_rows: "filter (\<lambda>r. st_stop_id r = Some ''S'') ex_stop_times \<noteq> []"
  by code_simp

lemma ex_active_none: "active_services parse_Ymd None None (dt_date ex_query) = {}"
  by (simp add: active_services_None)

lemma ex_active_A: "active_services parse_Ymd (Some [rule_A]) None (dt_date ex_query) = {''A''}"
  by code_simp

lemma ex_search_S_A:
  "map (\<lambda>r. st_trip_id (mr_stop_time (fst r)))
     (upcoming_rows (query_seconds ex_query)
        (filter (\<lambda>m. isin (mr_service_id m) {''A''}) (merge_left (stop_rows ''S'' ex_stop_times) ex_trips)))
   = [Some ''T4'', Some ''T1'', Some ''T3'']"
  by code_simp

lemma ex_search_S_all:
  "map (\<lambda>r. st_trip_id (mr_stop_time (fst r)))
     (upcoming_rows (query_seconds ex_query) (merge_left (stop_rows ''S'' ex_stop_times) ex_trips))
   = [Some ''T4'', Some ''T1'', Some ''T2'', Some ''T3'']"
  by code_simp

text \<open>
  Route R1 has the trips T1, T2 and T4, of which T2 runs under service B. With no
  calendar the projector shows T2 at stop S; with rule A alone it does not.
\<close>

theorem empty_active_set_is_no_filter_witness:
  "map ts_trip_id (get_static_trips_for_route (Some ex_trips) (Some ex_stop_times) None ''R1'' {})
     = [Some ''T1'', Some ''T2'', Some ''T4''] \<and>
   map ts_trip_id
     (get_static_trips_for_route (Some ex_trips) (Some ex_stop_times) None ''R1'' {''A''})
     = [Some ''T1'', Some ''T4''] \<and>
   search_by_stop_id_upcoming parse_Ymd (Some ex_trips) (Some ex_stop_times) None None ''S''
     (Some ex_query)
     = Upcoming (upcoming_rows (query_seconds ex_query)
         (merge_left (stop_rows ''S'' ex_stop_times) ex_trips)) \<and>
   map (\<lambda>r. st_trip_id (mr_stop_time (fst r)))
     (upcoming_rows (query_seconds ex_query) (merge_left (stop_rows ''S'' ex_stop_times) ex_trips))
     = [Some ''T4'', Some ''T1'', Some ''T2'', Some ''T3''] \<and>
   search_by_stop_id_upcoming parse_Ymd (Some ex_trips) (Some ex_stop_times) (Some [rule_A]) None
     ''S'' (Some ex_query)
     = Upcoming (upcoming_rows (query_seconds ex_query)
         (filter (\<lambda>m. isin (mr_service_id m) {''A''})
            (merge_left (stop_rows ''S'' ex_stop_times) ex_trips))) \<and>
   map (\<lambda>r. st_trip_id (mr_stop_time (fst r)))
     (upcoming_rows (query_seconds ex_query)
        (filter (\<lambda>m. isin (mr_service_id m) {''A''})
           (merge_left (stop_rows ''S'' ex_stop_times) ex_trips)))
     = [Some ''T4'', Some ''T1'', Some ''T3'']"
proof -
  note a = empty_active_set_is_no_filter
    [of parse_Ymd None None ex_query "''S''" ex_stop_times ex_trips "{}" None "''R1''"]
  note b = empty_active_set_is_no_filter
    [of parse_Ymd "Some [rule_A]" None ex_query "''S''" ex_stop_times ex_trips "{''A''}" None
       "''R1''"]
  from a have 1:
    "map ts_trip_id (get_static_trips_for_route (Some ex_trips) (Some ex_stop_times) None ''R1'' {})
       = [Some ''T1'', Some ''T2'', Some ''T4'']"
    by (simp add: Let_def ex_builder_all)
  from b have 2:
    "map ts_trip_id
       (get_static_trips_for_route (Some ex_trips) (Some ex_stop_times) None ''R1'' {''A''})
       = [Some ''T1'', Some ''T4'']"
    by (simp add: Let_def ex_builder_A)
  from a have 3:
    "search_by_stop_id_upcoming parse_Ymd (Some ex_trips) (Some ex_stop_times) None None ''S''
       (Some ex_query)
       = Upcoming (upcoming_rows (query_seconds ex_query)
           (merge_left (stop_rows ''S'' ex_stop_times) ex_trips))"
    using ex_S_rows by (simp add: Let_def ex_active_none)
  from b have 4:
    "search_by_stop_id_upcoming parse_Ymd (Some ex_trips) (Some ex_stop_times) (Some [rule_A])
       None ''S'' (Some ex_query)
       = Upcoming (upcoming_rows (query_seconds ex_query)
           (filter (\<lambda>m. isin (mr_service_id m) {''A''})
              (merge_left (stop_rows ''S'' ex_stop_times) ex_trips)))"
    using ex_S_rows by (simp add: Let_def ex_active_A)
  from 1 2 3 4 ex_search_S_all ex_search_S_A show ?thesis by blast
qed

section \<open>Correlation of the realtime feed\<close>

subsection \<open>The route filter\<close>

lemma correlate_loop_filter:
  "correlate_loop ttr route_id vehicle_id stop_id feed matches
     = matches @ map match_of (filter (entity_matched ttr route_id vehicle_id stop_id) feed)"
  by (induction feed arbitrary: matches) simp_all

lemma correlate_filter:
  "correlate feed trips route_id vehicle_id stop_id
     = map match_of (filter (entity_matched (trip_to_route trips) route_id vehicle_id stop_id) feed)"
  by (simp add: correlate_def correlate_loop_filter)

lemma entity_trip_resolved: "entity_trip e = resolved_trip e"
  by (cases "fe_trip_update e"; cases "fe_vehicle e")
    (simp_all add: entity_trip_def resolved_trip_def Let_def split: option.splits)

lemma matched_by_route:
  assumes "r \<noteq> []"
  shows "entity_matched (trip_to_route trips) (Some r) vehicle_id stop_id e = maps_to_route trips r e"
  using assms
  by (auto simp: entity_matched_def maps_to_route_def entity_trip_resolved truthy_def Let_def
      split: option.splits)

lemma matched_by_route_fun:
  assumes "r \<noteq> []"
  shows "entity_matched (trip_to_route trips) (Some r) vehicle_id stop_id = maps_to_route trips r"
  by (rule ext) (rule matched_by_route [OF assms])

text \<open>
  C7. With a route filter, that is a route id that is not empty, \<^verbatim>\<open>correlate\<close> returns
  the matches of exactly the entities whose resolved trip descriptor (the trip
  reference of the trip update if there is one, else that of the vehicle, else none)
  has a trip id that the mapping from trips to routes sends to the route id, in the
  order of the feed.
\<close>

theorem correlate_by_route:
  assumes "r \<noteq> []"
  shows "correlate feed trips (Some r) vehicle_id stop_id
           = map match_of (filter (maps_to_route trips r) feed)"
  by (simp add: correlate_filter matched_by_route_fun [OF assms])

lemma ex_route_R1:
  "map match_entity_id (map match_of (filter (maps_to_route (Some ex_trips) ''R1'') ex_feed))
     = [''e1'', ''e3'']"
  by code_simp

text \<open>
  Route R1 in the example feed: e1 by its trip update, e3 by the trip of its trip update
  although its vehicle is on a trip of route R2.
\<close>

theorem correlate_by_route_witness:
  "''R1'' \<noteq> [] \<and>
   map match_entity_id (correlate ex_feed (Some ex_trips) (Some ''R1'') None None)
     = [''e1'', ''e3'']"
  using correlate_by_route [of "''R1''" ex_feed "Some ex_trips" None None] ex_route_R1
  by simp

subsection \<open>The vehicle filter\<close>

lemma lower_Nil_iff: "(lower s = []) = (s = [])"
  by (simp add: lower_def)

lemma matched_by_vehicle:
  assumes "\<not> truthy route_id" and "v \<noteq> []" and "\<not> truthy stop_id"
  shows "entity_matched ttr route_id (Some v) stop_id e = vehicle_matches v e"
proof (cases "fe_vehicle e")
  case None
  with assms show ?thesis
    by (simp add: entity_matched_def vehicle_matches_def truthy_def Let_def)
next
  case (Some veh)
  have "lower (vehicle_id_of veh) = lower v \<Longrightarrow> vehicle_id_of veh \<noteq> []"
    using assms(2) lower_Nil_iff by metis
  with Some assms show ?thesis
    by (auto simp: entity_matched_def vehicle_matches_def truthy_def Let_def)
qed

lemma matched_by_vehicle_fun:
  assumes "\<not> truthy route_id" and "v \<noteq> []" and "\<not> truthy stop_id"
  shows "entity_matched ttr route_id (Some v) stop_id = vehicle_matches v"
  by (rule ext) (rule matched_by_vehicle [OF assms])

text \<open>
  C8. With a vehicle filter, that is a vehicle id that is not empty and no route id and
  no stop id, \<^verbatim>\<open>correlate\<close> returns the matches of exactly the entities that have a
  vehicle sub-message whose vehicle id, lowered, equals the lowered target; an entity
  without a vehicle sub-message does not match.
\<close>

theorem correlate_by_vehicle:
  assumes "\<not> truthy route_id" and "v \<noteq> []" and "\<not> truthy stop_id"
  shows "correlate feed trips route_id (Some v) stop_id
           = map match_of (filter (vehicle_matches v) feed) \<and>
         entity_matched (trip_to_route trips) route_id (Some v) stop_id e
           = (\<exists>veh. fe_vehicle e = Some veh \<and> lower (vehicle_id_of veh) = lower v) \<and>
         (fe_vehicle e = None \<longrightarrow>
            \<not> entity_matched (trip_to_route trips) route_id (Some v) stop_id e)"
proof (intro conjI)
  show "correlate feed trips route_id (Some v) stop_id
          = map match_of (filter (vehicle_matches v) feed)"
    by (simp add: correlate_filter matched_by_vehicle_fun [OF assms])
  show "entity_matched (trip_to_route trips) route_id (Some v) stop_id e
          = (\<exists>veh. fe_vehicle e = Some veh \<and> lower (vehicle_id_of veh) = lower v)"
    by (simp add: matched_by_vehicle [OF assms] vehicle_matches_def split: option.splits)
  show "fe_vehicle e = None \<longrightarrow>
          \<not> entity_matched (trip_to_route trips) route_id (Some v) stop_id e"
    by (simp add: matched_by_vehicle [OF assms] vehicle_matches_def)
qed

lemma ex_vehicle_filter:
  "map match_entity_id (map match_of (filter (vehicle_matches ''zg-8801-gr'') ex_feed)) = [''e2'']"
  by code_simp

lemma ex_e2_vehicle:
  "map_option vehicle_id_of (fe_vehicle (ex_feed ! 1)) = Some ''ZG-8801-GR''"
  by code_simp

text \<open>The filter zg-8801-gr matches the entity whose vehicle id is ZG-8801-GR.\<close>

theorem correlate_by_vehicle_witness:
  "\<not> truthy None \<and> ''zg-8801-gr'' \<noteq> [] \<and>
   map_option vehicle_id_of (fe_vehicle (ex_feed ! 1)) = Some ''ZG-8801-GR'' \<and>
   map match_entity_id (correlate ex_feed (Some ex_trips) None (Some ''zg-8801-gr'') None)
     = [''e2'']"
proof -
  have t: "\<not> truthy None" by (simp add: truthy_def)
  have v: "''zg-8801-gr'' \<noteq> []" by simp
  from correlate_by_vehicle [OF t v t, of ex_feed "Some ex_trips"] ex_vehicle_filter
  have "map match_entity_id (correlate ex_feed (Some ex_trips) None (Some ''zg-8801-gr'') None)
          = [''e2'']"
    by simp
  with t v ex_e2_vehicle show ?thesis by simp
qed

text \<open>
  When a stop id comes with the vehicle id, the code tests an entity that has no
  vehicle sub-message against the stop id: e1 has no vehicle and is matched.
\<close>

lemma vehicle_and_stop_example:
  "map match_entity_id
     (correlate ex_feed (Some ex_trips) None (Some ''zg-8801-gr'') (Some ''S''))
   = [''e1'', ''e2'']"
  by code_simp

subsection \<open>No filter\<close>

text \<open>
  C10. For every feed and every trips table, \<^verbatim>\<open>correlate\<close> without a route id, a
  vehicle id and a stop id returns the empty list.
\<close>

theorem correlate_without_filter:
  "correlate feed trips None None None = []"
  by (simp add: correlate_filter entity_matched_def truthy_def Let_def)

text \<open>The example feed, without a filter.\<close>

theorem correlate_without_filter_witness:
  "correlate ex_feed (Some ex_trips) None None None = []"
  by (rule correlate_without_filter)

end
